theory Spec2Isabelle
  imports Main "HOL-Library.Sublist"
begin

section \<open>Errors\<close>

text \<open>
  Go error values, as far as the package \<open>rabbitmq\<close> tells them apart:
  \<^item> \<open>ErrClosed\<close> is the sentinel \<open>amqp.ErrClosed\<close>;
  \<^item> \<open>ErrLib s\<close> is any other error value handed out by a library (amqp, json, os, tls);
  \<^item> \<open>Wrapf f e\<close> is \<open>fmt.Errorf(f, e)\<close> with the verb \<open>%w\<close>: it wraps \<open>e\<close>;
  \<^item> \<open>ErrMsg s\<close> is \<open>errors.New(s)\<close> or \<open>fmt.Errorf(s)\<close> without a verb.
\<close>

datatype error = ErrClosed | ErrLib string | Wrapf string error | ErrMsg string

text \<open>\<open>errors.Is(err, target)\<close>: equality along the chain of wrapped errors.\<close>

fun errors_Is :: "error \<Rightarrow> error \<Rightarrow> bool" where
  "errors_Is (Wrapf f e) t = (Wrapf f e = t \<or> errors_Is e t)"
| "errors_Is e t = (e = t)"

section \<open>Transport security settings\<close>

type_synonym Certificate = string

record tls_Config =
  Certificates :: "Certificate list"
  RootCAs :: "Certificate list option"
  MinVersion :: nat

definition VersionTLS12 :: nat where
  "VersionTLS12 = 771"

text \<open>
  The files and parsers \<open>LoadTLSConfig\<close> reads through the standard library:
  \<open>tls.LoadX509KeyPair\<close>, \<open>os.ReadFile\<close>, and the certificates that
  \<open>AppendCertsFromPEM\<close> finds in a PEM text (it reports success when it finds one).
\<close>

record cert_files =
  LoadX509KeyPair :: "string \<Rightarrow> string \<Rightarrow> error + Certificate"
  ReadFile :: "string \<Rightarrow> error + string"
  pem_certs :: "string \<Rightarrow> Certificate list"

definition AppendCertsFromPEM ::
  "cert_files \<Rightarrow> Certificate list \<Rightarrow> string \<Rightarrow> bool \<times> Certificate list" where
  "AppendCertsFromPEM fs pool pem = (pem_certs fs pem \<noteq> [], pool @ pem_certs fs pem)"

definition LoadTLSConfig :: "cert_files \<Rightarrow> bool \<Rightarrow> bool \<Rightarrow> error + tls_Config option" where
  "LoadTLSConfig fs useTLS useMTLS =
     (if \<not> useTLS then Inr None
      else
        let cfg = \<lparr>Certificates = [], RootCAs = None, MinVersion = 0\<rparr> in
        case (if useMTLS
              then (case LoadX509KeyPair fs ''/etc/certs/client.crt'' ''/etc/certs/client.key'' of
                      Inl err \<Rightarrow> Inl (Wrapf ''failed to load client certs: %w'' err)
                    | Inr cert \<Rightarrow> Inr (cfg\<lparr>Certificates := [cert]\<rparr>))
              else Inr cfg) of
          Inl err \<Rightarrow> Inl err
        | Inr cfg1 \<Rightarrow>
            (case ReadFile fs ''/etc/certs/ca.crt'' of
               Inl err \<Rightarrow> Inl (Wrapf ''failed to read CA cert: %w'' err)
             | Inr caCert \<Rightarrow>
                 (case AppendCertsFromPEM fs [] caCert of
                    (ok, caPool) \<Rightarrow>
                      if \<not> ok then Inl (ErrMsg ''failed to append CA cert'')
                      else Inr (Some (cfg1\<lparr>RootCAs := Some caPool,
                                          MinVersion := VersionTLS12\<rparr>)))))"

section \<open>The broker, seen from the client\<close>

text \<open>
  Connections and channels are handles. A \<open>time.Duration\<close> counts nanoseconds in 64 bits;
  the largest one the program computes is 32 seconds, far from the bound, so it is an
  integer here. The calls the client makes on the amqp library, with the arguments the
  source passes:
\<close>

type_synonym handle = nat
type_synonym Duration = int

record Publishing =
  ContentType :: string
  Body :: string

datatype call =
    Dial string
  | DialTLS string tls_Config
  | OpenChannel handle
  | QueueDeclare handle string bool bool bool bool "(string \<times> string) list option"
  | Publish handle string string bool bool Publishing
  | ChannelClose handle
  | ConnClose handle

datatype log_arg = ArgS string | ArgE error

datatype event =
    Call call "error option"
  | Slept Duration
  | Printf string "log_arg list"

text \<open>
  The world outside the process: \<open>script\<close> holds the answers the library will give to the
  next calls (\<open>None\<close> is \<open>nil\<close>, the call succeeded), \<open>trace\<close> records what the process did,
  oldest first, and \<open>fresh\<close> numbers the handles of new connections and channels.
\<close>

record world =
  script :: "error option list"
  trace :: "event list"
  fresh :: nat

text \<open>
  What running a piece of the program gives: \<open>Stuck\<close> when the script has no answer left
  for a call, \<open>Panic\<close> for a nil pointer dereference, \<open>Ret\<close> for a normal return.
\<close>

datatype 'a result = Stuck | Panic | Ret 'a

definition amqp_call :: "call \<Rightarrow> world \<Rightarrow> (error option \<times> world) result" where
  "amqp_call k w =
     (case script w of
        [] \<Rightarrow> Stuck
      | r # rs \<Rightarrow> Ret (r, w\<lparr>script := rs, trace := trace w @ [Call k r]\<rparr>))"

definition new_handle :: "world \<Rightarrow> handle \<times> world" where
  "new_handle w = (fresh w, w\<lparr>fresh := Suc (fresh w)\<rparr>)"

definition time_Second :: Duration where
  "time_Second = 1000000000"

definition time_Sleep :: "Duration \<Rightarrow> world \<Rightarrow> world" where
  "time_Sleep d w = w\<lparr>trace := trace w @ [Slept d]\<rparr>"

definition log_Printf :: "string \<Rightarrow> log_arg list \<Rightarrow> world \<Rightarrow> world" where
  "log_Printf f args w = w\<lparr>trace := trace w @ [Printf f args]\<rparr>"

section \<open>The client\<close>

record Client =
  conn :: "handle option"
  channel :: "handle option"
  queue :: string
  uri :: string
  tlsCfg :: "tls_Config option"

text \<open>The dial \<open>connect\<close> makes: \<open>amqp.DialTLS\<close> when a TLS configuration is bound.\<close>

definition dial_call :: "Client \<Rightarrow> call" where
  "dial_call c = (case tlsCfg c of Some cfg \<Rightarrow> DialTLS (uri c) cfg | None \<Rightarrow> Dial (uri c))"

definition connect :: "Client \<Rightarrow> world \<Rightarrow> (error option \<times> Client \<times> world) result" where
  "connect c w =
     (case amqp_call (dial_call c) w of
        Stuck \<Rightarrow> Stuck
      | Panic \<Rightarrow> Panic
      | Ret (err, w1) \<Rightarrow>
          (case err of
             Some e \<Rightarrow> Ret (Some (Wrapf ''dial failed: %w'' e), c, w1)
           | None \<Rightarrow>
               (case new_handle w1 of
                  (cn, w2) \<Rightarrow>
                    (case amqp_call (OpenChannel cn) w2 of
                       Stuck \<Rightarrow> Stuck
                     | Panic \<Rightarrow> Panic
                     | Ret (err, w3) \<Rightarrow>
                         (case err of
                            Some e \<Rightarrow> Ret (Some (Wrapf ''channel failed: %w'' e), c, w3)
                          | None \<Rightarrow>
                              (case new_handle w3 of
                                 (ch, w4) \<Rightarrow>
                                   (case amqp_call
                                           (QueueDeclare ch (queue c) True False False False None)
                                           w4 of
                                      Stuck \<Rightarrow> Stuck
                                    | Panic \<Rightarrow> Panic
                                    | Ret (err, w5) \<Rightarrow>
                                        (case err of
                                           Some e \<Rightarrow>
                                             Ret (Some (Wrapf ''queue declare failed: %w'' e), c, w5)
                                         | None \<Rightarrow>
                                             Ret (None,
                                                  c\<lparr>conn := Some cn, channel := Some ch\<rparr>,
                                                  w5)))))))))"

definition NewClient ::
  "string \<Rightarrow> string \<Rightarrow> tls_Config option \<Rightarrow> world \<Rightarrow> ((error + Client) \<times> world) result" where
  "NewClient u q t w =
     (let client = \<lparr>conn = None, channel = None, queue = q, uri = u, tlsCfg = t\<rparr> in
      case connect client w of
        Stuck \<Rightarrow> Stuck
      | Panic \<Rightarrow> Panic
      | Ret (err, client', w') \<Rightarrow>
          (case err of
             Some e \<Rightarrow> Ret (Inl e, w')
           | None \<Rightarrow> Ret (Inr client', w')))"

lemma connect_script_shorter:
  "connect c w = Ret (e, c', w') \<Longrightarrow> length (script w') < length (script w)"
  by (auto simp: connect_def amqp_call_def new_handle_def
           split: list.splits option.splits if_splits)

text \<open>
  \<open>PublishJSON\<close> and \<open>reconnectWithBackoff\<close> call each other. The loop of
  \<open>reconnectWithBackoff\<close> is \<open>reconnect_loop\<close>, with the loop counter \<open>i\<close> and the local
  \<open>backoff\<close> as arguments. \<open>json.Marshal\<close> is the argument \<open>marshal\<close>.
\<close>

function
  PublishJSON ::
    "('p \<Rightarrow> error + string) \<Rightarrow> Client \<Rightarrow> 'p \<Rightarrow> world \<Rightarrow> (error option \<times> Client \<times> world) result"
and reconnectWithBackoff ::
    "('p \<Rightarrow> error + string) \<Rightarrow> Client \<Rightarrow> 'p \<Rightarrow> world \<Rightarrow> (error option \<times> Client \<times> world) result"
and reconnect_loop ::
    "('p \<Rightarrow> error + string) \<Rightarrow> Client \<Rightarrow> 'p \<Rightarrow> nat \<Rightarrow> Duration \<Rightarrow> world
       \<Rightarrow> (error option \<times> Client \<times> world) result"
where
  "PublishJSON marshal c payload w =
     (case marshal payload of
        Inl err \<Rightarrow> Ret (Some err, c, w)
      | Inr body \<Rightarrow>
          (case channel c of
             None \<Rightarrow> Panic
           | Some ch \<Rightarrow>
               (case amqp_call
                       (Publish ch '''' (queue c) False False
                          \<lparr>ContentType = ''application/json'', Body = body\<rparr>) w of
                  Stuck \<Rightarrow> Stuck
                | Panic \<Rightarrow> Panic
                | Ret (err, w1) \<Rightarrow>
                    (case err of
                       None \<Rightarrow> Ret (None, c, w1)
                     | Some e \<Rightarrow>
                         if errors_Is e ErrClosed
                         then reconnectWithBackoff marshal c payload w1
                         else Ret (Some e, c, w1)))))"
| "reconnectWithBackoff marshal c payload w = reconnect_loop marshal c payload 0 time_Second w"
| "reconnect_loop marshal c payload i backoff w =
     (if i < 5 then
        (case connect c (time_Sleep backoff w) of
           Stuck \<Rightarrow> Stuck
         | Panic \<Rightarrow> Panic
         | Ret (err, c1, w1) \<Rightarrow>
             (case err of
                None \<Rightarrow> PublishJSON marshal c1 payload w1
              | Some e \<Rightarrow> reconnect_loop marshal c1 payload (i + 1) (backoff * 2) w1))
      else Ret (Some (ErrMsg ''unable to reconnect to RabbitMQ''), c, w))"
  by pat_completeness auto
termination
proof (relation "measure (\<lambda>x. case x of
                    Inl (m, c, p, w) \<Rightarrow> 2 * length (script w) + 1
                  | Inr (Inl (m, c, p, w)) \<Rightarrow> 2 * length (script w) + 1
                  | Inr (Inr (m, c, p, i, b, w)) \<Rightarrow> 2 * length (script w))", goal_cases)
  case 1
  show ?case by simp
next
  case (2 marshal c payload w body ch x y w1 e)
  then show ?case by (auto simp: amqp_call_def split: list.splits)
next
  case (3 marshal c payload w)
  show ?case by simp
next
  case (4 marshal c payload i backoff w x err y c1 w1)
  then show ?case by (auto simp: time_Sleep_def dest!: connect_script_shorter)
next
  case (5 marshal c payload i backoff w x err y c1 w1 e)
  then show ?case by (auto simp: time_Sleep_def dest!: connect_script_shorter)
qed

definition Close :: "Client \<Rightarrow> world \<Rightarrow> (Client \<times> world) result" where
  "Close c w =
     (case (case channel c of
              Some ch \<Rightarrow>
                (case amqp_call (ChannelClose ch) w of
                   Stuck \<Rightarrow> Stuck
                 | Panic \<Rightarrow> Panic
                 | Ret (_, w1) \<Rightarrow> Ret w1)
            | None \<Rightarrow> Ret w) of
        Stuck \<Rightarrow> Stuck
      | Panic \<Rightarrow> Panic
      | Ret w1 \<Rightarrow>
          (case conn c of
             Some cn \<Rightarrow>
               (case amqp_call (ConnClose cn) w1 of
                  Stuck \<Rightarrow> Stuck
                | Panic \<Rightarrow> Panic
                | Ret (_, w2) \<Rightarrow> Ret (c, w2))
           | None \<Rightarrow> Ret (c, w1)))"

section \<open>The program around the clients\<close>

record clientRef =
  name :: string
  client :: Client

text \<open>
  One of the two blocks of \<open>main\<close> that build the list of clients: for a non-empty
  URI a client is made; when that fails a line is logged, otherwise the client is appended.
\<close>

definition add_client ::
  "string \<Rightarrow> string \<Rightarrow> string \<Rightarrow> string \<Rightarrow> tls_Config option \<Rightarrow> clientRef list \<Rightarrow> world
     \<Rightarrow> (clientRef list \<times> world) result" where
  "add_client u label warning q t clients w =
     (if u \<noteq> [] then
        (case NewClient u q t w of
           Stuck \<Rightarrow> Stuck
         | Panic \<Rightarrow> Panic
         | Ret (r, w1) \<Rightarrow>
             (case r of
                Inl err \<Rightarrow> Ret (clients, log_Printf warning [ArgE err] w1)
              | Inr cl \<Rightarrow> Ret (clients @ [\<lparr>name = label, client = cl\<rparr>], w1)))
      else Ret (clients, w))"

datatype startup = Fatal string | Running "clientRef list"

definition main_clients ::
  "string \<Rightarrow> string \<Rightarrow> string \<Rightarrow> tls_Config option \<Rightarrow> world \<Rightarrow> (startup \<times> world) result" where
  "main_clients localURI remoteURI q t w =
     (case add_client localURI ''local'' ''Local RabbitMQ connection failed: %v'' q t [] w of
        Stuck \<Rightarrow> Stuck
      | Panic \<Rightarrow> Panic
      | Ret (clients1, w1) \<Rightarrow>
          (case add_client remoteURI ''remote'' ''Remote RabbitMQ connection failed: %v'' q t
                  clients1 w1 of
             Stuck \<Rightarrow> Stuck
           | Panic \<Rightarrow> Panic
           | Ret (clients2, w2) \<Rightarrow>
               if length clients2 = 0
               then Ret (Fatal ''No RabbitMQ connections available'', w2)
               else Ret (Running clients2, w2)))"


section \<open>Reading a trace\<close>

text \<open>The sleeps of a trace, and the sleeps and dials in the order they happened.\<close>

fun sleeps :: "event list \<Rightarrow> Duration list" where
  "sleeps [] = []"
| "sleeps (Slept d # evs) = d # sleeps evs"
| "sleeps (_ # evs) = sleeps evs"

datatype step = Sleep Duration | Connect string

fun steps :: "event list \<Rightarrow> step list" where
  "steps [] = []"
| "steps (Slept d # evs) = Sleep d # steps evs"
| "steps (Call (Dial u) r # evs) = Connect u # steps evs"
| "steps (Call (DialTLS u cfg) r # evs) = Connect u # steps evs"
| "steps (_ # evs) = steps evs"

text \<open>The publish calls of a trace, with and without the answer of the broker.\<close>

fun publishes :: "event list \<Rightarrow> (handle \<times> string \<times> string \<times> error option) list" where
  "publishes [] = []"
| "publishes (Call (Publish ch ex key m i pub) r # evs) = (ch, key, Body pub, r) # publishes evs"
| "publishes (_ # evs) = publishes evs"


text \<open>The channels whose queue was declared with success, and the lines logged.\<close>

fun declared :: "event list \<Rightarrow> handle list" where
  "declared [] = []"
| "declared (Call (QueueDeclare ch q d a x n args) None # evs) = ch # declared evs"
| "declared (_ # evs) = declared evs"

fun warnings :: "event list \<Rightarrow> string list" where
  "warnings [] = []"
| "warnings (Printf f args # evs) = f # warnings evs"
| "warnings (_ # evs) = warnings evs"


text \<open>
  The answers of the broker that make one \<open>connect\<close> fail: at the dial, at the
  channel, or at the declaration of the queue.
\<close>

fun failed_connect :: "error option list \<Rightarrow> bool" where
  "failed_connect [Some e] = True"
| "failed_connect [None, Some e] = True"
| "failed_connect [None, None, Some e] = True"
| "failed_connect _ = False"

section \<open>Sample data\<close>

text \<open>
  Inputs for the examples that follow the theorems: a stand-in for \<open>json.Marshal\<close> on
  text payloads that rejects one payload, a connected client, a world with a given
  script, and two sets of certificate files.
\<close>

definition sample_marshal :: "string \<Rightarrow> error + string" where
  "sample_marshal p =
     (if p = ''chan'' then Inl (ErrLib ''json: unsupported type'') else Inr p)"

definition sample_client :: Client where
  "sample_client =
     \<lparr>conn = Some 0, channel = Some 1, queue = ''temp'', uri = ''amqp://local'',
      tlsCfg = None\<rparr>"

definition sample_world :: "error option list \<Rightarrow> world" where
  "sample_world rs = \<lparr>script = rs, trace = [], fresh = 2\<rparr>"

definition no_files :: cert_files where
  "no_files =
     \<lparr>LoadX509KeyPair = (\<lambda>crt key. Inl (ErrLib ''no such file'')),
      ReadFile = (\<lambda>path. Inl (ErrLib ''no such file'')),
      pem_certs = (\<lambda>pem. [])\<rparr>"

definition all_files :: cert_files where
  "all_files =
     \<lparr>LoadX509KeyPair = (\<lambda>crt key. Inr ''client''),
      ReadFile = (\<lambda>path. Inr ''pem''),
      pem_certs = (\<lambda>pem. [''ca''])\<rparr>"

definition junk_pem_files :: cert_files where
  "junk_pem_files =
     \<lparr>LoadX509KeyPair = (\<lambda>crt key. Inr ''client''),
      ReadFile = (\<lambda>path. Inr ''junk''),
      pem_certs = (\<lambda>pem. [])\<rparr>"

definition unconnected_client :: Client where
  "unconnected_client =
     \<lparr>conn = None, channel = None, queue = ''temp'', uri = ''amqp://local'', tlsCfg = None\<rparr>"


declare PublishJSON.simps [simp del]
declare reconnectWithBackoff.simps [simp del]
declare reconnect_loop.simps [simp del]

section \<open>Serialization errors\<close>

text \<open>
  C3. When the payload cannot be serialized, \<open>PublishJSON\<close> returns the error of
  \<open>json.Marshal\<close> at once: the client and the world are unchanged, so nothing was sent,
  no connect was attempted and no sleep happened.
\<close>

theorem PublishJSON_marshal_error:
  "marshal payload = Inl err \<Longrightarrow> PublishJSON marshal c payload w = Ret (Some err, c, w)"
  by (simp add: PublishJSON.simps)

theorem PublishJSON_marshal_error_witness:
  "sample_marshal ''chan'' = Inl (ErrLib ''json: unsupported type'') \<and>
   PublishJSON sample_marshal sample_client ''chan'' (sample_world []) =
     Ret (Some (ErrLib ''json: unsupported type''), sample_client, sample_world [])"
  using PublishJSON_marshal_error
    [of sample_marshal "''chan''" "ErrLib ''json: unsupported type''" sample_client
        "sample_world []"]
  by (simp add: sample_marshal_def)

section \<open>Errors that are not a closed connection\<close>

text \<open>
  C4. When the broker answers the publish with an error that is not \<open>amqp.ErrClosed\<close>
  (nor wraps it), \<open>PublishJSON\<close> returns that error: the only thing that happened is
  the one publish call, with no connect and no sleep.
\<close>

theorem PublishJSON_other_error:
  assumes "marshal payload = Inr body"
    and "channel c = Some ch"
    and "script w = Some e # rest"
    and "\<not> errors_Is e ErrClosed"
  shows "PublishJSON marshal c payload w =
           Ret (Some e, c,
                w\<lparr>script := rest,
                  trace := trace w @
                    [Call (Publish ch [] (queue c) False False
                             \<lparr>ContentType = ''application/json'', Body = body\<rparr>)
                          (Some e)]\<rparr>)"
  using assms by (simp add: PublishJSON.simps amqp_call_def)

theorem PublishJSON_other_error_witness:
  "sample_marshal ''m'' = Inr ''m'' \<and>
   channel sample_client = Some 1 \<and>
   script (sample_world [Some (ErrLib ''blocked'')]) = Some (ErrLib ''blocked'') # [] \<and>
   \<not> errors_Is (ErrLib ''blocked'') ErrClosed \<and>
   PublishJSON sample_marshal sample_client ''m'' (sample_world [Some (ErrLib ''blocked'')]) =
     Ret (Some (ErrLib ''blocked''), sample_client,
          \<lparr>script = [],
           trace = [Call (Publish 1 [] ''temp'' False False
                            \<lparr>ContentType = ''application/json'', Body = ''m''\<rparr>)
                         (Some (ErrLib ''blocked''))],
           fresh = 2\<rparr>)"
  using PublishJSON_other_error
    [of sample_marshal "''m''" "''m''" sample_client 1
        "sample_world [Some (ErrLib ''blocked'')]" "ErrLib ''blocked''" "[]"]
  by (simp add: sample_marshal_def sample_client_def sample_world_def)

section \<open>Connecting\<close>

text \<open>
  C6. \<open>connect\<close> dials the URI of the client (with \<open>DialTLS\<close> when a TLS configuration is
  bound, with \<open>Dial\<close> otherwise), then opens a channel on the new connection, then declares
  the queue durable, not auto-deleted, not exclusive, with no arguments. The first step
  that fails ends it with an error that wraps the cause and names the step, and leaves
  the client as it was. When the three steps succeed both handles of the client are
  replaced by the new ones; the trace has no close of a channel or a connection.
\<close>

theorem connect_contract:
  "(script w = Some e # rest \<longrightarrow>
      connect c w = Ret (Some (Wrapf ''dial failed: %w'' e), c,
        w\<lparr>script := rest, trace := trace w @ [Call (dial_call c) (Some e)]\<rparr>)) \<and>
   (script w = None # Some e # rest \<longrightarrow>
      connect c w = Ret (Some (Wrapf ''channel failed: %w'' e), c,
        w\<lparr>script := rest,
          trace := trace w @ [Call (dial_call c) None, Call (OpenChannel (fresh w)) (Some e)],
          fresh := fresh w + 1\<rparr>)) \<and>
   (script w = None # None # Some e # rest \<longrightarrow>
      connect c w = Ret (Some (Wrapf ''queue declare failed: %w'' e), c,
        w\<lparr>script := rest,
          trace := trace w @ [Call (dial_call c) None, Call (OpenChannel (fresh w)) None,
             Call (QueueDeclare (fresh w + 1) (queue c) True False False False None) (Some e)],
          fresh := fresh w + 2\<rparr>)) \<and>
   (script w = None # None # None # rest \<longrightarrow>
      connect c w = Ret (None, c\<lparr>conn := Some (fresh w), channel := Some (fresh w + 1)\<rparr>,
        w\<lparr>script := rest,
          trace := trace w @ [Call (dial_call c) None, Call (OpenChannel (fresh w)) None,
             Call (QueueDeclare (fresh w + 1) (queue c) True False False False None) None],
          fresh := fresh w + 2\<rparr>)) \<and>
   dial_call c = (case tlsCfg c of Some cfg \<Rightarrow> DialTLS (uri c) cfg | None \<Rightarrow> Dial (uri c))"
  by (simp add: connect_def amqp_call_def new_handle_def dial_call_def)

theorem connect_contract_witness:
  "script (sample_world [Some ErrClosed]) = Some ErrClosed # [] \<and>
   connect sample_client (sample_world [Some ErrClosed]) =
     Ret (Some (Wrapf ''dial failed: %w'' ErrClosed), sample_client,
          \<lparr>script = [], trace = [Call (Dial ''amqp://local'') (Some ErrClosed)], fresh = 2\<rparr>) \<and>
   script (sample_world [None, Some ErrClosed]) = None # Some ErrClosed # [] \<and>
   connect sample_client (sample_world [None, Some ErrClosed]) =
     Ret (Some (Wrapf ''channel failed: %w'' ErrClosed), sample_client,
          \<lparr>script = [],
           trace = [Call (Dial ''amqp://local'') None, Call (OpenChannel 2) (Some ErrClosed)],
           fresh = 3\<rparr>) \<and>
   script (sample_world [None, None, Some ErrClosed]) = None # None # Some ErrClosed # [] \<and>
   connect sample_client (sample_world [None, None, Some ErrClosed]) =
     Ret (Some (Wrapf ''queue declare failed: %w'' ErrClosed), sample_client,
          \<lparr>script = [],
           trace = [Call (Dial ''amqp://local'') None, Call (OpenChannel 2) None,
                    Call (QueueDeclare 3 ''temp'' True False False False None) (Some ErrClosed)],
           fresh = 4\<rparr>) \<and>
   script (sample_world [None, None, None]) = None # None # None # [] \<and>
   connect sample_client (sample_world [None, None, None]) =
     Ret (None, sample_client\<lparr>conn := Some 2, channel := Some 3\<rparr>,
          \<lparr>script = [],
           trace = [Call (Dial ''amqp://local'') None, Call (OpenChannel 2) None,
                    Call (QueueDeclare 3 ''temp'' True False False False None) None],
           fresh = 4\<rparr>)"
  using connect_contract [of "sample_world [Some ErrClosed]" ErrClosed "[]" sample_client]
    connect_contract [of "sample_world [None, Some ErrClosed]" ErrClosed "[]" sample_client]
    connect_contract [of "sample_world [None, None, Some ErrClosed]" ErrClosed "[]" sample_client]
    connect_contract [of "sample_world [None, None, None]" ErrClosed "[]" sample_client]
  by (simp add: sample_client_def sample_world_def dial_call_def)

section \<open>Closing\<close>

text \<open>
  C9. \<open>Close\<close> closes the channel, then the connection, each only when the client holds
  it. Whatever the two calls answer (\<open>r1\<close>, \<open>r2\<close>: success or any error) is dropped:
  \<open>Close\<close> returns nothing but the unchanged client, and it never panics. On a client
  that never connected it does nothing at all. Called twice in a row it makes the same
  two calls again and returns again; in general it returns the client unchanged
  whenever the library answers its calls, two at most, so it can be called any number of
  times.
\<close>

theorem Close_contract:
  "Close c w \<noteq> Panic \<and>
   (channel c = None \<and> conn c = None \<longrightarrow> Close c w = Ret (c, w)) \<and>
   (channel c = Some ch \<and> conn c = None \<and> script w = r1 # rest \<longrightarrow>
      Close c w = Ret (c, w\<lparr>script := rest, trace := trace w @ [Call (ChannelClose ch) r1]\<rparr>)) \<and>
   (channel c = None \<and> conn c = Some cn \<and> script w = r1 # rest \<longrightarrow>
      Close c w = Ret (c, w\<lparr>script := rest, trace := trace w @ [Call (ConnClose cn) r1]\<rparr>)) \<and>
   (channel c = Some ch \<and> conn c = Some cn \<and> script w = r1 # r2 # rest \<longrightarrow>
      Close c w =
        Ret (c, w\<lparr>script := rest,
                  trace := trace w @ [Call (ChannelClose ch) r1, Call (ConnClose cn) r2]\<rparr>)) \<and>
   (channel c = Some ch \<and> conn c = Some cn \<and> script w = r1 # r2 # r3 # r4 # rest \<longrightarrow>
      (case Close c w of Ret (c1, w1) \<Rightarrow> Close c1 w1 | Stuck \<Rightarrow> Stuck | Panic \<Rightarrow> Panic) =
        Ret (c, w\<lparr>script := rest,
                  trace := trace w @ [Call (ChannelClose ch) r1, Call (ConnClose cn) r2,
                                      Call (ChannelClose ch) r3, Call (ConnClose cn) r4]\<rparr>)) \<and>
   (2 \<le> length (script w) \<longrightarrow>
      (\<exists>w'. Close c w = Ret (c, w') \<and> length (script w) \<le> length (script w') + 2))"
proof -
  have "2 \<le> length (script w) \<longrightarrow>
      (\<exists>w'. Close c w = Ret (c, w') \<and> length (script w) \<le> length (script w') + 2)"
  proof
    assume "2 \<le> length (script w)"
    then obtain r1 r2 rest where "script w = r1 # r2 # rest"
      by (auto simp: numeral_2_eq_2 Suc_le_length_iff)
    then show "\<exists>w'. Close c w = Ret (c, w') \<and> length (script w) \<le> length (script w') + 2"
      by (cases "channel c"; cases "conn c") (simp_all add: Close_def amqp_call_def)
  qed
  moreover have "Close c w \<noteq> Panic"
    by (auto simp: Close_def amqp_call_def split: option.splits list.splits)
  moreover have "channel c = None \<and> conn c = None \<longrightarrow> Close c w = Ret (c, w)"
    by (simp add: Close_def)
  moreover have "channel c = Some ch \<and> conn c = None \<and> script w = r1 # rest \<longrightarrow>
      Close c w = Ret (c, w\<lparr>script := rest, trace := trace w @ [Call (ChannelClose ch) r1]\<rparr>)"
    by (simp add: Close_def amqp_call_def)
  moreover have "channel c = None \<and> conn c = Some cn \<and> script w = r1 # rest \<longrightarrow>
      Close c w = Ret (c, w\<lparr>script := rest, trace := trace w @ [Call (ConnClose cn) r1]\<rparr>)"
    by (simp add: Close_def amqp_call_def)
  moreover have "channel c = Some ch \<and> conn c = Some cn \<and> script w = r1 # r2 # rest \<longrightarrow>
      Close c w =
        Ret (c, w\<lparr>script := rest,
                  trace := trace w @ [Call (ChannelClose ch) r1, Call (ConnClose cn) r2]\<rparr>)"
    by (simp add: Close_def amqp_call_def)
  moreover have "channel c = Some ch \<and> conn c = Some cn \<and> script w = r1 # r2 # r3 # r4 # rest \<longrightarrow>
      (case Close c w of Ret (c1, w1) \<Rightarrow> Close c1 w1 | Stuck \<Rightarrow> Stuck | Panic \<Rightarrow> Panic) =
        Ret (c, w\<lparr>script := rest,
                  trace := trace w @ [Call (ChannelClose ch) r1, Call (ConnClose cn) r2,
                                      Call (ChannelClose ch) r3, Call (ConnClose cn) r4]\<rparr>)"
    by (simp add: Close_def amqp_call_def)
  ultimately show ?thesis by blast
qed

theorem Close_contract_witness:
  "Close unconnected_client (sample_world []) = Ret (unconnected_client, sample_world []) \<and>
   (case Close unconnected_client (sample_world []) of
      Ret (c1, w1) \<Rightarrow> Close c1 w1 | Stuck \<Rightarrow> Stuck | Panic \<Rightarrow> Panic) =
     Ret (unconnected_client, sample_world []) \<and>
   Close (sample_client\<lparr>conn := None\<rparr>) (sample_world [Some ErrClosed]) =
     Ret (sample_client\<lparr>conn := None\<rparr>,
          \<lparr>script = [], trace = [Call (ChannelClose 1) (Some ErrClosed)], fresh = 2\<rparr>) \<and>
   Close (sample_client\<lparr>channel := None\<rparr>) (sample_world [Some ErrClosed]) =
     Ret (sample_client\<lparr>channel := None\<rparr>,
          \<lparr>script = [], trace = [Call (ConnClose 0) (Some ErrClosed)], fresh = 2\<rparr>) \<and>
   Close sample_client (sample_world [Some (ErrLib ''timeout''), None]) =
     Ret (sample_client,
          \<lparr>script = [],
           trace = [Call (ChannelClose 1) (Some (ErrLib ''timeout'')), Call (ConnClose 0) None],
           fresh = 2\<rparr>) \<and>
   (case Close sample_client (sample_world [None, None, Some ErrClosed, Some ErrClosed]) of
      Ret (c1, w1) \<Rightarrow> Close c1 w1 | Stuck \<Rightarrow> Stuck | Panic \<Rightarrow> Panic) =
     Ret (sample_client,
          \<lparr>script = [],
           trace = [Call (ChannelClose 1) None, Call (ConnClose 0) None,
                    Call (ChannelClose 1) (Some ErrClosed), Call (ConnClose 0) (Some ErrClosed)],
           fresh = 2\<rparr>)"
  using Close_contract [of unconnected_client "sample_world []"]
    Close_contract [of "sample_client\<lparr>conn := None\<rparr>" "sample_world [Some ErrClosed]" 1
                       "Some ErrClosed" "[]"]
    Close_contract [of "sample_client\<lparr>channel := None\<rparr>" "sample_world [Some ErrClosed]" _
                       "Some ErrClosed" "[]" 0]
    Close_contract [of sample_client "sample_world [Some (ErrLib ''timeout''), None]" 1
                       "Some (ErrLib ''timeout'')" "[]" 0 None]
    Close_contract [of sample_client "sample_world [None, None, Some ErrClosed, Some ErrClosed]" 1
                       None "[]" 0 None "Some ErrClosed" "Some ErrClosed"]
  by (simp add: sample_client_def unconnected_client_def sample_world_def)

section \<open>Loading the TLS configuration\<close>

text \<open>
  C5, as the code has it. With TLS enabled: when mutual TLS is enabled too and the client
  key pair does not load, \<open>LoadTLSConfig\<close> fails; when the CA file cannot be read or
  holds no certificate, it fails; and a configuration it returns has the CA pool, the
  client certificate exactly when mutual TLS is enabled, and the minimum version
  TLS 1.2. With TLS disabled it returns no configuration and no error, whatever the
  mutual-TLS flag says.
\<close>

theorem LoadTLSConfig_contract:
  "(useMTLS \<and>
      LoadX509KeyPair fs ''/etc/certs/client.crt'' ''/etc/certs/client.key'' = Inl e \<longrightarrow>
      LoadTLSConfig fs True useMTLS = Inl (Wrapf ''failed to load client certs: %w'' e)) \<and>
   (ReadFile fs ''/etc/certs/ca.crt'' = Inl e \<longrightarrow> isl (LoadTLSConfig fs True useMTLS)) \<and>
   (ReadFile fs ''/etc/certs/ca.crt'' = Inr pem \<and> pem_certs fs pem = [] \<longrightarrow>
      isl (LoadTLSConfig fs True useMTLS)) \<and>
   (LoadTLSConfig fs True useMTLS = Inr r \<longrightarrow>
      (\<exists>cfg pem. r = Some cfg \<and> MinVersion cfg = VersionTLS12 \<and>
         ReadFile fs ''/etc/certs/ca.crt'' = Inr pem \<and> pem_certs fs pem \<noteq> [] \<and>
         RootCAs cfg = Some (pem_certs fs pem) \<and>
         (if useMTLS
          then LoadX509KeyPair fs ''/etc/certs/client.crt'' ''/etc/certs/client.key'' =
                 Inr (hd (Certificates cfg)) \<and> length (Certificates cfg) = 1
          else Certificates cfg = []))) \<and>
   LoadTLSConfig fs False useMTLS = Inr None"
  by (auto simp: LoadTLSConfig_def AppendCertsFromPEM_def Let_def
           split: if_splits sum.splits)

theorem LoadTLSConfig_contract_witness:
  "LoadX509KeyPair no_files ''/etc/certs/client.crt'' ''/etc/certs/client.key'' =
     Inl (ErrLib ''no such file'') \<and>
   LoadTLSConfig no_files True True =
     Inl (Wrapf ''failed to load client certs: %w'' (ErrLib ''no such file'')) \<and>
   ReadFile no_files ''/etc/certs/ca.crt'' = Inl (ErrLib ''no such file'') \<and>
   isl (LoadTLSConfig no_files True False) \<and>
   ReadFile junk_pem_files ''/etc/certs/ca.crt'' = Inr ''junk'' \<and>
   pem_certs junk_pem_files ''junk'' = [] \<and>
   isl (LoadTLSConfig junk_pem_files True True) \<and>
   LoadTLSConfig all_files True True =
     Inr (Some \<lparr>Certificates = [''client''], RootCAs = Some [''ca''], MinVersion = 771\<rparr>) \<and>
   LoadTLSConfig all_files True False =
     Inr (Some \<lparr>Certificates = [], RootCAs = Some [''ca''], MinVersion = 771\<rparr>) \<and>
   LoadTLSConfig all_files False False = Inr None"
  using LoadTLSConfig_contract [of True no_files "ErrLib ''no such file''"]
    LoadTLSConfig_contract [of False no_files "ErrLib ''no such file''"]
    LoadTLSConfig_contract [of True junk_pem_files _ "''junk''"]
    LoadTLSConfig_contract [of True all_files]
    LoadTLSConfig_contract [of False all_files]
  by (simp add: no_files_def junk_pem_files_def all_files_def LoadTLSConfig_def
        AppendCertsFromPEM_def VersionTLS12_def)

text \<open>
  The claim as the specification words it fails: with mutual TLS enabled, TLS disabled
  and no loadable client key pair, \<open>LoadTLSConfig\<close> succeeds.
\<close>

theorem LoadTLSConfig_mtls_without_tls:
  "LoadX509KeyPair no_files ''/etc/certs/client.crt'' ''/etc/certs/client.key'' =
     Inl (ErrLib ''no such file'') \<and>
   LoadTLSConfig no_files False True = Inr None"
  by (simp add: no_files_def LoadTLSConfig_def)

section \<open>Reconnecting with backoff\<close>

text \<open>The projections of a trace distribute over the concatenation of traces.\<close>


lemma steps_append: "steps (xs @ ys) = steps xs @ steps ys"
  by (induction xs rule: steps.induct) simp_all

lemma sleeps_append: "sleeps (xs @ ys) = sleeps xs @ sleeps ys"
  by (induction xs rule: sleeps.induct) simp_all

lemma publishes_append: "publishes (xs @ ys) = publishes xs @ publishes ys"
  by (induction xs rule: publishes.induct) simp_all

lemma connect_failed:
  assumes "failed_connect f" and "script w = f @ rest"
  shows "\<exists>e w' evs. connect c w = Ret (Some e, c, w') \<and> script w' = rest \<and>
           trace w' = trace w @ evs \<and> steps evs = [Connect (uri c)] \<and>
           sleeps evs = [] \<and> publishes evs = []"
  using assms
  by (cases f rule: failed_connect.cases)
     (auto simp: connect_def amqp_call_def new_handle_def dial_call_def split: option.splits)

lemma connect_succeeded:
  assumes "script w = None # None # None # rest"
  shows "\<exists>cn ch w' evs. connect c w = Ret (None, c\<lparr>conn := Some cn, channel := Some ch\<rparr>, w') \<and>
           script w' = rest \<and> trace w' = trace w @ evs \<and> steps evs = [Connect (uri c)] \<and>
           sleeps evs = [] \<and> publishes evs = []"
  using assms
  by (auto simp: connect_def amqp_call_def new_handle_def dial_call_def split: option.splits)

lemma reconnect_loop_failures:
  assumes "list_all failed_connect fs" and "i + length fs \<le> 5"
    and "script w = concat fs @ rest"
  shows "\<exists>w' evs. reconnect_loop m c p i b w =
                    reconnect_loop m c p (i + length fs) (b * 2 ^ length fs) w' \<and>
           script w' = rest \<and> trace w' = trace w @ evs \<and>
           steps evs = concat (map (\<lambda>j. [Sleep (b * 2 ^ j), Connect (uri c)]) [0..<length fs]) \<and>
           sleeps evs = map (\<lambda>j. b * 2 ^ j) [0..<length fs] \<and>
           publishes evs = []"
  using assms
proof (induction fs arbitrary: i b w)
  case Nil
  then have "reconnect_loop m c p i b w =
               reconnect_loop m c p (i + length ([]::error option list list))
                 (b * 2 ^ length ([]::error option list list)) w \<and>
             script w = rest \<and> trace w = trace w @ [] \<and>
             steps [] = concat (map (\<lambda>j. [Sleep (b * 2 ^ j), Connect (uri c)])
                                  [0..<length ([]::error option list list)]) \<and>
             sleeps [] = map (\<lambda>j. b * 2 ^ j) [0..<length ([]::error option list list)] \<and>
             publishes [] = []"
    by simp
  then show ?case by blast
next
  case (Cons f fs)
  from Cons.prems have f: "failed_connect f" and fs: "list_all failed_connect fs"
    and i: "i < 5" and len: "(i + 1) + length fs \<le> 5" by simp_all
  have "script (time_Sleep b w) = f @ (concat fs @ rest)"
    using Cons.prems(3) by (simp add: time_Sleep_def)
  from connect_failed [OF f this, where c = c] obtain e w1 evs1 where
    c1: "connect c (time_Sleep b w) = Ret (Some e, c, w1)"
    and s1: "script w1 = concat fs @ rest"
    and t1: "trace w1 = trace (time_Sleep b w) @ evs1"
    and st1: "steps evs1 = [Connect (uri c)]" and sl1: "sleeps evs1 = []"
    and p1: "publishes evs1 = []"
    by blast
  have step: "reconnect_loop m c p i b w = reconnect_loop m c p (i + 1) (b * 2) w1"
    using i c1 by (subst reconnect_loop.simps) simp
  from Cons.IH [OF fs len s1, where b = "b * 2"] obtain w' evs2 where
    r: "reconnect_loop m c p (i + 1) (b * 2) w1 =
          reconnect_loop m c p (i + 1 + length fs) (b * 2 * 2 ^ length fs) w'"
    and s2: "script w' = rest" and t2: "trace w' = trace w1 @ evs2"
    and st2: "steps evs2 =
                concat (map (\<lambda>j. [Sleep (b * 2 * 2 ^ j), Connect (uri c)]) [0..<length fs])"
    and sl2: "sleeps evs2 = map (\<lambda>j. b * 2 * 2 ^ j) [0..<length fs]"
    and p2: "publishes evs2 = []"
    by blast
  have "trace w' = trace w @ (Slept b # evs1 @ evs2)"
    using t1 t2 by (simp add: time_Sleep_def)
  moreover have "steps (Slept b # evs1 @ evs2) =
      concat (map (\<lambda>j. [Sleep (b * 2 ^ j), Connect (uri c)]) [0..<length (f # fs)])"
    using st1 st2 by (simp add: steps_append map_upt_Suc mult.assoc del: upt_Suc)
  moreover have "sleeps (Slept b # evs1 @ evs2) = map (\<lambda>j. b * 2 ^ j) [0..<length (f # fs)]"
    using sl1 sl2 by (simp add: sleeps_append map_upt_Suc mult.assoc del: upt_Suc)
  moreover have "publishes (Slept b # evs1 @ evs2) = []"
    using p1 p2 by (simp add: publishes_append)
  moreover have "reconnect_loop m c p i b w =
      reconnect_loop m c p (i + length (f # fs)) (b * 2 ^ length (f # fs)) w'"
    using step r by (simp add: mult.assoc)
  ultimately show ?case using s2 by blast
qed

lemma sum_backoff: "sum_list (map (\<lambda>j. b * 2 ^ j) [0..<n]) = b * (2 ^ n - 1)" for b :: int
  by (induction n) (simp_all add: algebra_simps)

lemma PublishJSON_closed:
  assumes "marshal payload = Inr body" and "channel c = Some ch"
    and "script w = Some e # rest" and "errors_Is e ErrClosed"
  shows "PublishJSON marshal c payload w =
           reconnect_loop marshal c payload 0 time_Second
             (w\<lparr>script := rest,
                trace := trace w @
                  [Call (Publish ch [] (queue c) False False
                           \<lparr>ContentType = ''application/json'', Body = body\<rparr>) (Some e)]\<rparr>)"
  using assms by (simp add: PublishJSON.simps reconnectWithBackoff.simps amqp_call_def)

text \<open>
  C1. The broker answers the publish with an error that is (or wraps) \<open>amqp.ErrClosed\<close>,
  and then makes five connects in a row fail (\<open>fs\<close> holds the answers of each). Then
  \<open>PublishJSON\<close> returns the error "unable to reconnect to RabbitMQ" with the client
  unchanged, and after the failed publish the process did exactly this: sleep 1 s,
  connect, sleep 2 s, connect, sleep 4 s, connect, sleep 8 s, connect, sleep 16 s, connect.
  No further publish call was made: the message was never sent, and nothing keeps it.
\<close>

theorem PublishJSON_retries_exhausted:
  assumes "marshal payload = Inr body" and "channel c = Some ch"
    and "errors_Is e ErrClosed"
    and "list_all failed_connect fs" and "length fs = 5"
    and "script w = Some e # concat fs @ rest"
  shows "\<exists>w' evs.
           PublishJSON marshal c payload w =
             Ret (Some (ErrMsg ''unable to reconnect to RabbitMQ''), c, w') \<and>
           script w' = rest \<and>
           trace w' = trace w @
             Call (Publish ch [] (queue c) False False
                     \<lparr>ContentType = ''application/json'', Body = body\<rparr>) (Some e) # evs \<and>
           steps evs =
             [Sleep time_Second, Connect (uri c),
              Sleep (2 * time_Second), Connect (uri c),
              Sleep (4 * time_Second), Connect (uri c),
              Sleep (8 * time_Second), Connect (uri c),
              Sleep (16 * time_Second), Connect (uri c)] \<and>
           publishes evs = []"
proof -
  let ?pub = "Call (Publish ch [] (queue c) False False
                      \<lparr>ContentType = ''application/json'', Body = body\<rparr>) (Some e)"
  let ?w1 = "w\<lparr>script := concat fs @ rest, trace := trace w @ [?pub]\<rparr>"
  have start: "PublishJSON marshal c payload w = reconnect_loop marshal c payload 0 time_Second ?w1"
    using assms(1,2,3,6) by (rule_tac PublishJSON_closed) simp_all
  have "0 + length fs \<le> 5" and "script ?w1 = concat fs @ rest"
    using assms(5) by simp_all
  from reconnect_loop_failures [OF assms(4) this, where m = marshal and c = c and p = payload
      and b = time_Second]
  obtain w' evs where
    r: "reconnect_loop marshal c payload 0 time_Second ?w1 =
          reconnect_loop marshal c payload (0 + length fs) (time_Second * 2 ^ length fs) w'"
    and s: "script w' = rest" and t: "trace w' = trace ?w1 @ evs"
    and st: "steps evs =
               concat (map (\<lambda>j. [Sleep (time_Second * 2 ^ j), Connect (uri c)]) [0..<length fs])"
    and p: "publishes evs = []"
    by blast
  have "reconnect_loop marshal c payload (0 + length fs) (time_Second * 2 ^ length fs) w' =
          Ret (Some (ErrMsg ''unable to reconnect to RabbitMQ''), c, w')"
    using assms(5) by (subst reconnect_loop.simps) simp
  moreover have "[0..<5] = [0, 1, 2, 3, 4::nat]"
    by (simp add: upt_rec)
  ultimately show ?thesis
    using start r s t st p assms(5) by simp
qed


theorem PublishJSON_retries_exhausted_witness:
  "sample_marshal ''m'' = Inr ''m'' \<and> channel sample_client = Some 1 \<and>
   errors_Is (Wrapf ''write: %w'' ErrClosed) ErrClosed \<and>
   list_all failed_connect
     [[Some (ErrLib ''refused'')], [None, Some ErrClosed], [None, None, Some (ErrLib ''denied'')],
      [Some (ErrLib ''refused'')], [Some (ErrLib ''refused'')]] \<and>
   PublishJSON sample_marshal sample_client ''m''
     (sample_world
        [Some (Wrapf ''write: %w'' ErrClosed),
         Some (ErrLib ''refused''),
         None, Some ErrClosed,
         None, None, Some (ErrLib ''denied''),
         Some (ErrLib ''refused''),
         Some (ErrLib ''refused''),
         None]) =
     Ret (Some (ErrMsg ''unable to reconnect to RabbitMQ''), sample_client,
          \<lparr>script = [None],
           trace =
             [Call (Publish 1 [] ''temp'' False False
                      \<lparr>ContentType = ''application/json'', Body = ''m''\<rparr>)
                   (Some (Wrapf ''write: %w'' ErrClosed)),
              Slept 1000000000, Call (Dial ''amqp://local'') (Some (ErrLib ''refused'')),
              Slept 2000000000, Call (Dial ''amqp://local'') None,
              Call (OpenChannel 2) (Some ErrClosed),
              Slept 4000000000, Call (Dial ''amqp://local'') None,
              Call (OpenChannel 3) None,
              Call (QueueDeclare 4 ''temp'' True False False False None)
                   (Some (ErrLib ''denied'')),
              Slept 8000000000, Call (Dial ''amqp://local'') (Some (ErrLib ''refused'')),
              Slept 16000000000, Call (Dial ''amqp://local'') (Some (ErrLib ''refused''))],
           fresh = 5\<rparr>)"
  using PublishJSON_retries_exhausted
    [of sample_marshal "''m''" "''m''" sample_client 1 "Wrapf ''write: %w'' ErrClosed"
        "[[Some (ErrLib ''refused'')], [None, Some ErrClosed],
          [None, None, Some (ErrLib ''denied'')],
          [Some (ErrLib ''refused'')], [Some (ErrLib ''refused'')]]"
        "sample_world
           [Some (Wrapf ''write: %w'' ErrClosed),
            Some (ErrLib ''refused''),
            None, Some ErrClosed,
            None, None, Some (ErrLib ''denied''),
            Some (ErrLib ''refused''),
            Some (ErrLib ''refused''),
            None]" "[None]"]
  by (simp add: sample_marshal_def sample_client_def sample_world_def
        PublishJSON.simps reconnectWithBackoff.simps reconnect_loop.simps
        connect_def amqp_call_def new_handle_def dial_call_def time_Sleep_def time_Second_def)

text \<open>
  C2. The broker answers the publish with an error that is (or wraps) \<open>amqp.ErrClosed\<close>,
  makes the first \<open>k - 1\<close> connects fail and the \<open>k\<close>-th succeed, with \<open>k \<le> 5\<close>. Then the
  result of \<open>PublishJSON\<close> is the result of one new call of \<open>PublishJSON\<close>, for the same
  payload, on the client with its two new handles. Before that call the process slept
  \<open>k\<close> times, 1 s, 2 s, ... each followed by a connect, \<open>2 ^ k - 1\<close> seconds in all, and
  made no publish call. When the broker accepts the new publish, \<open>PublishJSON\<close> returns
  no error after that single publish call on the new channel.
\<close>

theorem PublishJSON_reconnected:
  assumes "marshal payload = Inr body" and "channel c = Some ch"
    and "errors_Is e ErrClosed"
    and "list_all failed_connect fs" and "length fs + 1 = k" and "k \<le> 5"
    and "script w = Some e # concat fs @ None # None # None # rest"
  shows "\<exists>cn ch' w' evs.
           PublishJSON marshal c payload w =
             PublishJSON marshal (c\<lparr>conn := Some cn, channel := Some ch'\<rparr>) payload w' \<and>
           script w' = rest \<and>
           trace w' = trace w @
             Call (Publish ch [] (queue c) False False
                     \<lparr>ContentType = ''application/json'', Body = body\<rparr>) (Some e) # evs \<and>
           steps evs =
             concat (map (\<lambda>j. [Sleep (time_Second * 2 ^ j), Connect (uri c)]) [0..<k]) \<and>
           sum_list (sleeps evs) = time_Second * (2 ^ k - 1) \<and>
           publishes evs = [] \<and>
           (\<forall>rest'. rest = None # rest' \<longrightarrow>
              PublishJSON marshal c payload w =
                Ret (None, c\<lparr>conn := Some cn, channel := Some ch'\<rparr>,
                     w'\<lparr>script := rest',
                        trace := trace w' @
                          [Call (Publish ch' [] (queue c) False False
                                   \<lparr>ContentType = ''application/json'', Body = body\<rparr>)
                                None]\<rparr>))"
proof -
  let ?pub = "Call (Publish ch [] (queue c) False False
                      \<lparr>ContentType = ''application/json'', Body = body\<rparr>) (Some e)"
  let ?tl = "None # None # None # rest"
  let ?w1 = "w\<lparr>script := concat fs @ ?tl, trace := trace w @ [?pub]\<rparr>"
  let ?b = "time_Second * 2 ^ length fs"
  have start: "PublishJSON marshal c payload w = reconnect_loop marshal c payload 0 time_Second ?w1"
    using assms(1,2,3,7) by (rule_tac PublishJSON_closed) simp_all
  have "0 + length fs \<le> 5" and "script ?w1 = concat fs @ ?tl"
    using assms(5,6) by simp_all
  from reconnect_loop_failures [OF assms(4) this, where m = marshal and c = c and p = payload
      and b = time_Second]
  obtain w2 evs2 where
    r: "reconnect_loop marshal c payload 0 time_Second ?w1 =
          reconnect_loop marshal c payload (0 + length fs) ?b w2"
    and s2: "script w2 = ?tl" and t2: "trace w2 = trace ?w1 @ evs2"
    and st2: "steps evs2 =
               concat (map (\<lambda>j. [Sleep (time_Second * 2 ^ j), Connect (uri c)]) [0..<length fs])"
    and sl2: "sleeps evs2 = map (\<lambda>j. time_Second * 2 ^ j) [0..<length fs]"
    and p2: "publishes evs2 = []"
    by blast
  have "script (time_Sleep ?b w2) = ?tl"
    using s2 by (simp add: time_Sleep_def)
  from connect_succeeded [OF this, where c = c] obtain cn ch' w' evs3 where
    c3: "connect c (time_Sleep ?b w2) = Ret (None, c\<lparr>conn := Some cn, channel := Some ch'\<rparr>, w')"
    and s3: "script w' = rest" and t3: "trace w' = trace (time_Sleep ?b w2) @ evs3"
    and st3: "steps evs3 = [Connect (uri c)]" and sl3: "sleeps evs3 = []"
    and p3: "publishes evs3 = []"
    by blast
  let ?c' = "c\<lparr>conn := Some cn, channel := Some ch'\<rparr>"
  let ?evs = "evs2 @ Slept ?b # evs3"
  have last: "reconnect_loop marshal c payload (0 + length fs) ?b w2 = PublishJSON marshal ?c' payload w'"
    using assms(5,6) c3 by (subst reconnect_loop.simps) simp
  have eq: "PublishJSON marshal c payload w = PublishJSON marshal ?c' payload w'"
    using start r last by simp
  have tr: "trace w' = trace w @ ?pub # ?evs"
    using t2 t3 by (simp add: time_Sleep_def)
  have k: "k = Suc (length fs)"
    using assms(5) by simp
  have st: "steps ?evs =
      concat (map (\<lambda>j. [Sleep (time_Second * 2 ^ j), Connect (uri c)]) [0..<k])"
    using st2 st3 by (simp add: steps_append k)
  have "sleeps ?evs = map (\<lambda>j. time_Second * 2 ^ j) [0..<k]"
    using sl2 sl3 by (simp add: sleeps_append k)
  then have sl: "sum_list (sleeps ?evs) = time_Second * (2 ^ k - 1)"
    by (simp only: sum_backoff)
  have pb: "publishes ?evs = []"
    using p2 p3 by (simp add: publishes_append)
  have again: "\<forall>rest'. rest = None # rest' \<longrightarrow>
      PublishJSON marshal c payload w =
        Ret (None, ?c',
             w'\<lparr>script := rest',
                trace := trace w' @
                  [Call (Publish ch' [] (queue c) False False
                           \<lparr>ContentType = ''application/json'', Body = body\<rparr>) None]\<rparr>)"
    using eq s3 assms(1) by (simp add: PublishJSON.simps amqp_call_def)
  from eq s3 tr st sl pb again show ?thesis by blast
qed

theorem PublishJSON_reconnected_witness:
  "sample_marshal ''m'' = Inr ''m'' \<and> channel sample_client = Some 1 \<and>
   errors_Is ErrClosed ErrClosed \<and>
   list_all failed_connect [[Some (ErrLib ''refused'')], [None, Some ErrClosed]] \<and>
   length [[Some (ErrLib ''refused'')], [None, Some ErrClosed]] + 1 = (3::nat) \<and>
   PublishJSON sample_marshal sample_client ''m''
     (sample_world
        [Some ErrClosed,
         Some (ErrLib ''refused''),
         None, Some ErrClosed,
         None, None, None,
         None]) =
     Ret (None, sample_client\<lparr>conn := Some 3, channel := Some 4\<rparr>,
          \<lparr>script = [],
           trace =
             [Call (Publish 1 [] ''temp'' False False
                      \<lparr>ContentType = ''application/json'', Body = ''m''\<rparr>)
                   (Some ErrClosed),
              Slept 1000000000, Call (Dial ''amqp://local'') (Some (ErrLib ''refused'')),
              Slept 2000000000, Call (Dial ''amqp://local'') None,
              Call (OpenChannel 2) (Some ErrClosed),
              Slept 4000000000, Call (Dial ''amqp://local'') None,
              Call (OpenChannel 3) None,
              Call (QueueDeclare 4 ''temp'' True False False False None) None,
              Call (Publish 4 [] ''temp'' False False
                      \<lparr>ContentType = ''application/json'', Body = ''m''\<rparr>)
                   None],
           fresh = 5\<rparr>) \<and>
   sum_list (sleeps
     [Slept 1000000000, Call (Dial ''amqp://local'') (Some (ErrLib ''refused'')),
      Slept 2000000000, Call (Dial ''amqp://local'') None,
      Call (OpenChannel 2) (Some ErrClosed),
      Slept 4000000000, Call (Dial ''amqp://local'') None,
      Call (OpenChannel 3) None,
      Call (QueueDeclare 4 ''temp'' True False False False None) None]) =
     time_Second * (2 ^ 3 - 1)"
  using PublishJSON_reconnected
    [of sample_marshal "''m''" "''m''" sample_client 1 ErrClosed
        "[[Some (ErrLib ''refused'')], [None, Some ErrClosed]]" 3
        "sample_world
           [Some ErrClosed,
            Some (ErrLib ''refused''),
            None, Some ErrClosed,
            None, None, None,
            None]" "[None]"]
  by (simp add: sample_marshal_def sample_client_def sample_world_def
        PublishJSON.simps reconnectWithBackoff.simps reconnect_loop.simps
        connect_def amqp_call_def new_handle_def dial_call_def time_Sleep_def time_Second_def)

section \<open>The channel of a client is never nil\<close>

lemma connect_not_Panic: "connect c w \<noteq> Panic"
  by (auto simp: connect_def amqp_call_def new_handle_def split: list.splits option.splits)

lemma connect_channel:
  "connect c w = Ret (e, c', w') \<Longrightarrow>
     (e = None \<longrightarrow> channel c' \<noteq> None \<and> conn c' \<noteq> None) \<and> (e \<noteq> None \<longrightarrow> c' = c)"
  by (auto simp: connect_def amqp_call_def new_handle_def split: list.splits option.splits)

lemma publish_keeps_channel:
  "(channel c \<noteq> None \<longrightarrow>
      PublishJSON m c p w \<noteq> Panic \<and>
      (\<forall>e c' w'. PublishJSON m c p w = Ret (e, c', w') \<longrightarrow> channel c' \<noteq> None))"
  "(channel c \<noteq> None \<longrightarrow>
      reconnectWithBackoff m c p w \<noteq> Panic \<and>
      (\<forall>e c' w'. reconnectWithBackoff m c p w = Ret (e, c', w') \<longrightarrow> channel c' \<noteq> None))"
  "(channel c \<noteq> None \<longrightarrow>
      reconnect_loop m c p i b w \<noteq> Panic \<and>
      (\<forall>e c' w'. reconnect_loop m c p i b w = Ret (e, c', w') \<longrightarrow> channel c' \<noteq> None))"
proof (induction m c p w and m c p w and m c p i b w
       rule: PublishJSON_reconnectWithBackoff_reconnect_loop.induct)
  case (1 marshal c payload w)
  then show ?case
    by (auto simp: PublishJSON.simps [of marshal c payload w] amqp_call_def
             split: sum.splits option.splits list.splits)
next
  case (2 marshal c payload w)
  then show ?case by (simp add: reconnectWithBackoff.simps)
next
  case (3 marshal c payload i backoff w)
  show ?case
  proof (cases "i < 5")
    case False
    then show ?thesis by (simp add: reconnect_loop.simps)
  next
    case True
    show ?thesis
    proof (cases "connect c (time_Sleep backoff w)")
      case Stuck
      then show ?thesis using True by (simp add: reconnect_loop.simps)
    next
      case Panic
      then show ?thesis using connect_not_Panic by blast
    next
      case (Ret x)
      obtain err c1 w1 where x: "x = (err, c1, w1)" by (cases x)
      show ?thesis
      proof (cases err)
        case None
        then have "channel c1 \<noteq> None" using connect_channel Ret x by blast
        then show ?thesis
          using "3.IH"(1)[OF True Ret[unfolded x] refl refl None] True Ret x None
          by (simp add: reconnect_loop.simps)
      next
        case (Some e)
        then have "c1 = c" using connect_channel Ret x by blast
        then show ?thesis
          using "3.IH"(2)[OF True Ret[unfolded x] refl refl Some] True Ret x Some
          by (simp add: reconnect_loop.simps)
      qed
    qed
  qed
qed

text \<open>
  C10. A client that \<open>NewClient\<close> returns has a channel. \<open>connect\<close> gives the client new
  handles only when its three steps succeed, and leaves it as it was when one fails;
  \<open>Close\<close> leaves it as it was; \<open>PublishJSON\<close> on a client with a channel returns a client
  with a channel. So \<open>PublishJSON\<close> on such a client never panics, whereas on a client
  without a channel it panics as soon as the payload is serialized.
\<close>

theorem channel_never_nil:
  "(NewClient u q t w = Ret (Inr c', w') \<longrightarrow> channel c' \<noteq> None) \<and>
   (connect c w = Ret (None, c', w') \<longrightarrow> channel c' \<noteq> None) \<and>
   (connect c w = Ret (Some e, c', w') \<longrightarrow> c' = c) \<and>
   (Close c w = Ret (c', w') \<longrightarrow> c' = c) \<and>
   (channel c \<noteq> None \<and> PublishJSON m c p w = Ret (r, c', w') \<longrightarrow> channel c' \<noteq> None) \<and>
   (channel c \<noteq> None \<longrightarrow> PublishJSON m c p w \<noteq> Panic) \<and>
   (channel c = None \<and> m p = Inr body \<longrightarrow> PublishJSON m c p w = Panic)"
proof -
  have "NewClient u q t w = Ret (Inr c', w') \<longrightarrow> channel c' \<noteq> None"
    by (auto simp: NewClient_def split: result.splits option.splits dest: connect_channel)
  moreover have "connect c w = Ret (None, c', w') \<longrightarrow> channel c' \<noteq> None"
    using connect_channel by blast
  moreover have "connect c w = Ret (Some e, c', w') \<longrightarrow> c' = c"
    using connect_channel by blast
  moreover have "Close c w = Ret (c', w') \<longrightarrow> c' = c"
    by (auto simp: Close_def split: result.splits option.splits)
  moreover have "channel c \<noteq> None \<and> PublishJSON m c p w = Ret (r, c', w') \<longrightarrow> channel c' \<noteq> None"
    using publish_keeps_channel(1) [of c m p w] by simp
  moreover have "channel c \<noteq> None \<longrightarrow> PublishJSON m c p w \<noteq> Panic"
    using publish_keeps_channel(1) [of c m p w] by simp
  moreover have "channel c = None \<and> m p = Inr body \<longrightarrow> PublishJSON m c p w = Panic"
    by (simp add: PublishJSON.simps)
  ultimately show ?thesis by blast
qed

theorem channel_never_nil_witness:
  "NewClient ''amqp://local'' ''temp'' None (sample_world [None, None, None]) =
     Ret (Inr (sample_client\<lparr>conn := Some 2, channel := Some 3\<rparr>),
          \<lparr>script = [],
           trace = [Call (Dial ''amqp://local'') None, Call (OpenChannel 2) None,
                    Call (QueueDeclare 3 ''temp'' True False False False None) None],
           fresh = 4\<rparr>) \<and>
   channel (sample_client\<lparr>conn := Some 2, channel := Some 3\<rparr>) \<noteq> None \<and>
   connect sample_client (sample_world [None, Some ErrClosed]) =
     Ret (Some (Wrapf ''channel failed: %w'' ErrClosed), sample_client,
          \<lparr>script = [],
           trace = [Call (Dial ''amqp://local'') None, Call (OpenChannel 2) (Some ErrClosed)],
           fresh = 3\<rparr>) \<and>
   Close sample_client (sample_world [None, None]) =
     Ret (sample_client,
          \<lparr>script = [], trace = [Call (ChannelClose 1) None, Call (ConnClose 0) None],
           fresh = 2\<rparr>) \<and>
   channel sample_client \<noteq> None \<and>
   PublishJSON sample_marshal sample_client ''m'' (sample_world [None]) =
     Ret (None, sample_client,
          \<lparr>script = [],
           trace = [Call (Publish 1 [] ''temp'' False False
                            \<lparr>ContentType = ''application/json'', Body = ''m''\<rparr>) None],
           fresh = 2\<rparr>) \<and>
   PublishJSON sample_marshal sample_client ''m'' (sample_world [None]) \<noteq> Panic \<and>
   channel unconnected_client = None \<and> sample_marshal ''m'' = Inr ''m'' \<and>
   PublishJSON sample_marshal unconnected_client ''m'' (sample_world [None]) = Panic"
  using channel_never_nil
    [where u = "''amqp://local''" and q = "''temp''" and t = None
       and w = "sample_world [None, None, None]"
       and c' = "sample_client\<lparr>conn := Some 2, channel := Some 3\<rparr>"
       and c = sample_client and m = sample_marshal and p = "''m''"]
    channel_never_nil
    [where w = "sample_world [None, Some ErrClosed]" and c = sample_client
       and c' = sample_client and e = "Wrapf ''channel failed: %w'' ErrClosed"
       and m = sample_marshal and p = "''m''"]
    channel_never_nil
    [where w = "sample_world [None, None]" and c = sample_client and c' = sample_client
       and m = sample_marshal and p = "''m''"]
    channel_never_nil
    [where w = "sample_world [None]" and c = sample_client and c' = sample_client
       and m = sample_marshal and p = "''m''" and r = None]
    channel_never_nil
    [where w = "sample_world [None]" and c = unconnected_client
       and m = sample_marshal and p = "''m''" and body = "''m''"]
  by (simp add: sample_marshal_def sample_client_def unconnected_client_def sample_world_def
        NewClient_def connect_def Close_def PublishJSON.simps amqp_call_def new_handle_def
        dial_call_def)

section \<open>Publishing to every client\<close>









section \<open>Building the list of clients at startup\<close>

lemma declared_append: "declared (xs @ ys) = declared xs @ declared ys"
  by (induction xs rule: declared.induct) simp_all

lemma warnings_append: "warnings (xs @ ys) = warnings xs @ warnings ys"
  by (induction xs rule: warnings.induct) simp_all

lemma connect_startup_trace:
  assumes "connect c w = Ret (e, c', w')"
  shows "\<exists>evs. trace w' = trace w @ evs \<and> steps evs = [Connect (uri c)] \<and> warnings evs = [] \<and>
           (case e of
              Some x \<Rightarrow> declared evs = []
            | None \<Rightarrow> channel c' \<noteq> None \<and> map Some (declared evs) = [channel c'])"
proof (cases "tlsCfg c")
  case None
  with assms show ?thesis
    by (auto simp: connect_def amqp_call_def new_handle_def dial_call_def
             split: list.splits option.splits)
next
  case (Some cfg)
  with assms show ?thesis
    by (auto simp: connect_def amqp_call_def new_handle_def dial_call_def
             split: list.splits option.splits)
qed

lemma NewClient_trace:
  assumes "NewClient u q t w = Ret (r, w')"
  shows "\<exists>evs. trace w' = trace w @ evs \<and> steps evs = [Connect u] \<and> warnings evs = [] \<and>
           (case r of
              Inl e \<Rightarrow> declared evs = []
            | Inr c \<Rightarrow> channel c \<noteq> None \<and> map Some (declared evs) = [channel c])"
proof -
  let ?c = "\<lparr>conn = None, channel = None, queue = q, uri = u, tlsCfg = t\<rparr>"
  from assms obtain e c' where c: "connect ?c w = Ret (e, c', w')"
    and r: "r = (case e of Some x \<Rightarrow> Inl x | None \<Rightarrow> Inr c')"
    by (auto simp: NewClient_def Let_def split: result.splits option.splits)
  from connect_startup_trace [OF c] r show ?thesis
    by (cases e) auto
qed

lemma add_client_trace:
  assumes "add_client u label warning q t clients w = Ret (clients', w')"
  shows "\<exists>evs new. trace w' = trace w @ evs \<and> clients' = clients @ new \<and>
           steps evs = map Connect (filter (\<lambda>u. u \<noteq> []) [u]) \<and>
           length (declared evs) + length (warnings evs) = length (filter (\<lambda>u. u \<noteq> []) [u]) \<and>
           map (\<lambda>c. channel (client c)) new = map Some (declared evs) \<and>
           map name new = map (\<lambda>c. label) new"
proof (cases "u = []")
  case True
  then have "clients' = clients @ []" and "trace w' = trace w @ []"
    using assms by (simp_all add: add_client_def)
  then show ?thesis using True by fastforce
next
  case False
  then obtain r w1 where n: "NewClient u q t w = Ret (r, w1)"
    using assms by (auto simp: add_client_def split: result.splits)
  from NewClient_trace [OF n] obtain evs where
    t: "trace w1 = trace w @ evs" and s: "steps evs = [Connect u]" and wn: "warnings evs = []"
    and d: "case r of Inl e \<Rightarrow> declared evs = []
            | Inr c \<Rightarrow> channel c \<noteq> None \<and> map Some (declared evs) = [channel c]"
    by blast
  show ?thesis
  proof (cases r)
    case (Inl e)
    then have "clients' = clients @ []" and "trace w' = trace w @ (evs @ [Printf warning [ArgE e]])"
      using assms False n t by (auto simp: add_client_def log_Printf_def)
    moreover have "steps (evs @ [Printf warning [ArgE e]]) = map Connect (filter (\<lambda>u. u \<noteq> []) [u])"
      using s False by (simp add: steps_append)
    moreover have "declared (evs @ [Printf warning [ArgE e]]) = []"
      and "warnings (evs @ [Printf warning [ArgE e]]) = [warning]"
      using d wn Inl by (simp_all add: declared_append warnings_append)
    ultimately show ?thesis using False by fastforce
  next
    case (Inr c)
    then have "clients' = clients @ [\<lparr>name = label, client = c\<rparr>]" and "trace w' = trace w @ evs"
      using assms False n t by (auto simp: add_client_def)
    moreover have "map (\<lambda>c. channel (client c)) [\<lparr>name = label, client = c\<rparr>] = map Some (declared evs)"
      using d Inr by simp
    moreover have "length (map Some (declared evs)) = length [channel c]"
      using d Inr by simp
    then have "length (declared evs) = 1"
      by simp
    ultimately show ?thesis using False s wn by fastforce
  qed
qed

lemma connect_returns:
  assumes "3 \<le> length (script w)"
  shows "\<exists>e c' w'. connect c w = Ret (e, c', w') \<and> length (script w) \<le> length (script w') + 3"
proof -
  from assms obtain r1 r2 r3 rest where s: "script w = r1 # r2 # r3 # rest"
    by (auto simp: numeral_3_eq_3 Suc_le_length_iff)
  show ?thesis
    by (cases r1; cases r2; cases r3)
       (simp_all add: s connect_def amqp_call_def new_handle_def)
qed

lemma add_client_returns:
  assumes "3 \<le> length (script w)"
  shows "\<exists>cs' w'. add_client u label warning q t cs w = Ret (cs', w') \<and>
           length (script w) \<le> length (script w') + 3"
proof -
  let ?c = "\<lparr>conn = None, channel = None, queue = q, uri = u, tlsCfg = t\<rparr>"
  from connect_returns [OF assms, of ?c] obtain e c' w' where
    "connect ?c w = Ret (e, c', w')" and "length (script w) \<le> length (script w') + 3"
    by blast
  then show ?thesis
    by (cases e) (simp_all add: add_client_def NewClient_def log_Printf_def)
qed

lemma main_clients_returns:
  assumes "6 \<le> length (script w)"
  shows "\<exists>res w'. main_clients localURI remoteURI q t w = Ret (res, w')"
proof -
  from assms have "3 \<le> length (script w)" by simp
  from add_client_returns [OF this] obtain cs1 w1 where
    a1: "add_client localURI ''local'' ''Local RabbitMQ connection failed: %v'' q t [] w =
           Ret (cs1, w1)"
    and l1: "length (script w) \<le> length (script w1) + 3"
    by blast
  from assms l1 have "3 \<le> length (script w1)" by simp
  from add_client_returns [OF this] obtain cs2 w2 where
    a2: "add_client remoteURI ''remote'' ''Remote RabbitMQ connection failed: %v'' q t cs1 w1 =
           Ret (cs2, w2)"
    by blast
  from a1 a2 show ?thesis
    by (simp add: main_clients_def)
qed

lemma main_clients_not_Panic: "main_clients localURI remoteURI q t w \<noteq> Panic"
proof -
  have "\<And>u label warning cs w. add_client u label warning q t cs w \<noteq> Panic"
    using connect_not_Panic
    by (auto simp: add_client_def NewClient_def split: result.splits option.splits)
  then show ?thesis
    by (auto simp: main_clients_def split: result.splits)
qed

lemma main_clients_trace:
  assumes "main_clients localURI remoteURI q t w = Ret (res, w')"
  shows "\<exists>evs. trace w' = trace w @ evs \<and>
           steps evs = map Connect (filter (\<lambda>u. u \<noteq> []) [localURI, remoteURI]) \<and>
           length (declared evs) + length (warnings evs) =
             length (filter (\<lambda>u. u \<noteq> []) [localURI, remoteURI]) \<and>
           (res = Fatal ''No RabbitMQ connections available'' \<and> declared evs = [] \<or>
            (\<exists>cs. res = Running cs \<and> cs \<noteq> [] \<and>
                  map (\<lambda>c. channel (client c)) cs = map Some (declared evs)))"
proof -
  from assms obtain cs1 w1 where
    a1: "add_client localURI ''local'' ''Local RabbitMQ connection failed: %v'' q t [] w =
           Ret (cs1, w1)"
    by (auto simp: main_clients_def split: result.splits)
  from assms a1 obtain cs2 where
    a2: "add_client remoteURI ''remote'' ''Remote RabbitMQ connection failed: %v'' q t cs1 w1 =
           Ret (cs2, w')"
    and res: "res = (if length cs2 = 0 then Fatal ''No RabbitMQ connections available''
                     else Running cs2)"
    by (auto simp: main_clients_def split: result.splits if_splits)
  from add_client_trace [OF a1] obtain evs1 new1 where
    t1: "trace w1 = trace w @ evs1" and c1: "cs1 = new1"
    and s1: "steps evs1 = map Connect (filter (\<lambda>u. u \<noteq> []) [localURI])"
    and l1: "length (declared evs1) + length (warnings evs1) =
               length (filter (\<lambda>u. u \<noteq> []) [localURI])"
    and d1: "map (\<lambda>c. channel (client c)) new1 = map Some (declared evs1)"
    by auto
  from add_client_trace [OF a2] obtain evs2 new2 where
    t2: "trace w' = trace w1 @ evs2" and c2: "cs2 = cs1 @ new2"
    and s2: "steps evs2 = map Connect (filter (\<lambda>u. u \<noteq> []) [remoteURI])"
    and l2: "length (declared evs2) + length (warnings evs2) =
               length (filter (\<lambda>u. u \<noteq> []) [remoteURI])"
    and d2: "map (\<lambda>c. channel (client c)) new2 = map Some (declared evs2)"
    by auto
  have "trace w' = trace w @ (evs1 @ evs2)"
    using t1 t2 by simp
  moreover have "steps (evs1 @ evs2) = map Connect (filter (\<lambda>u. u \<noteq> []) [localURI, remoteURI])"
    using s1 s2 by (simp add: steps_append)
  moreover have "length (declared (evs1 @ evs2)) + length (warnings (evs1 @ evs2)) =
             length (filter (\<lambda>u. u \<noteq> []) [localURI, remoteURI])"
    using l1 l2 by (cases "localURI = []"; cases "remoteURI = []")
      (simp_all add: declared_append warnings_append)
  moreover have d: "map (\<lambda>c. channel (client c)) cs2 = map Some (declared (evs1 @ evs2))"
    using c1 c2 d1 d2 by (simp add: declared_append)
  moreover have "res = Fatal ''No RabbitMQ connections available'' \<and> declared (evs1 @ evs2) = [] \<or>
            (\<exists>cs. res = Running cs \<and> cs \<noteq> [] \<and>
                  map (\<lambda>c. channel (client c)) cs = map Some (declared (evs1 @ evs2)))"
  proof (cases "cs2 = []")
    case True
    then show ?thesis using res d by simp
  next
    case False
    then show ?thesis using res d by simp
  qed
  ultimately show ?thesis by blast
qed

text \<open>
  C8. At startup a client is made for the local URI and then for the remote URI, each
  exactly when the URI is not empty: the trace has one connect per non-empty URI, in
  that order, whatever the first one gave. Each connect either declares its queue, and
  the client is registered, or is followed by one logged line. The result is fatal
  exactly when no queue was declared, that is when no client was registered; otherwise
  the program runs with the registered clients, one or two. The code never panics, and
  returns whenever the broker answers its calls (six at most).
\<close>

theorem main_clients_contract:
  "main_clients localURI remoteURI q t w \<noteq> Panic \<and>
   (6 \<le> length (script w) \<longrightarrow> main_clients localURI remoteURI q t w \<noteq> Stuck) \<and>
   (main_clients localURI remoteURI q t w = Ret (res, w') \<longrightarrow>
      (\<exists>evs. trace w' = trace w @ evs \<and>
         steps evs = map Connect (filter (\<lambda>u. u \<noteq> []) [localURI, remoteURI]) \<and>
         length (declared evs) + length (warnings evs) =
           length (filter (\<lambda>u. u \<noteq> []) [localURI, remoteURI]) \<and>
         (res = Fatal ''No RabbitMQ connections available'' \<and> declared evs = [] \<or>
          (\<exists>cs. res = Running cs \<and> cs \<noteq> [] \<and>
                map (\<lambda>c. channel (client c)) cs = map Some (declared evs)))))"
proof (intro conjI impI)
  show "main_clients localURI remoteURI q t w \<noteq> Panic"
    by (rule main_clients_not_Panic)
next
  assume "6 \<le> length (script w)"
  from main_clients_returns [OF this] show "main_clients localURI remoteURI q t w \<noteq> Stuck"
    by (metis result.distinct(3))
next
  assume "main_clients localURI remoteURI q t w = Ret (res, w')"
  then show "\<exists>evs. trace w' = trace w @ evs \<and>
         steps evs = map Connect (filter (\<lambda>u. u \<noteq> []) [localURI, remoteURI]) \<and>
         length (declared evs) + length (warnings evs) =
           length (filter (\<lambda>u. u \<noteq> []) [localURI, remoteURI]) \<and>
         (res = Fatal ''No RabbitMQ connections available'' \<and> declared evs = [] \<or>
          (\<exists>cs. res = Running cs \<and> cs \<noteq> [] \<and>
                map (\<lambda>c. channel (client c)) cs = map Some (declared evs)))"
    by (rule main_clients_trace)
qed

theorem main_clients_contract_witness:
  "6 \<le> length (script (sample_world [Some (ErrLib ''refused''), None, None, None, None, None])) \<and>
   main_clients ''amqp://local'' ''amqps://remote'' ''temp'' None
     (sample_world [Some (ErrLib ''refused''), None, None, None, None, None]) =
     Ret (Running
            [\<lparr>name = ''remote'',
              client = \<lparr>conn = Some 2, channel = Some 3, queue = ''temp'',
                        uri = ''amqps://remote'', tlsCfg = None\<rparr>\<rparr>],
          \<lparr>script = [None, None],
           trace =
             [Call (Dial ''amqp://local'') (Some (ErrLib ''refused'')),
              Printf ''Local RabbitMQ connection failed: %v''
                [ArgE (Wrapf ''dial failed: %w'' (ErrLib ''refused''))],
              Call (Dial ''amqps://remote'') None, Call (OpenChannel 2) None,
              Call (QueueDeclare 3 ''temp'' True False False False None) None],
           fresh = 4\<rparr>) \<and>
   main_clients ''amqp://local'' [] ''temp'' None (sample_world [None, Some ErrClosed]) =
     Ret (Fatal ''No RabbitMQ connections available'',
          \<lparr>script = [],
           trace =
             [Call (Dial ''amqp://local'') None, Call (OpenChannel 2) (Some ErrClosed),
              Printf ''Local RabbitMQ connection failed: %v''
                [ArgE (Wrapf ''channel failed: %w'' ErrClosed)]],
           fresh = 3\<rparr>) \<and>
   main_clients [] [] ''temp'' None (sample_world []) =
     Ret (Fatal ''No RabbitMQ connections available'', sample_world [])"
  using main_clients_contract
    [of "''amqp://local''" "''amqps://remote''" "''temp''" None
        "sample_world [Some (ErrLib ''refused''), None, None, None, None, None]"]
    main_clients_contract
    [of "''amqp://local''" "[]" "''temp''" None "sample_world [None, Some ErrClosed]"]
    main_clients_contract [of "[]" "[]" "''temp''" None "sample_world []"]
  by (simp add: main_clients_def add_client_def NewClient_def connect_def amqp_call_def
        new_handle_def dial_call_def log_Printf_def sample_world_def)

end
